theory Spec2Isabelle
  imports Main "HOL-Library.Word" "HOL-Library.Sublist" "HOL-Library.Multiset"
begin

section \<open>Contract validation and dispatch (src/neuralnet/contract.cpp)\<close>

text \<open>
  A shallow embedding of the contract envelope, its variant codecs, the key
  resolver and signer, the replay pool and the dispatcher.  Machine integers
  are words: \<open>int\<close> is a 32-bit word and \<open>int64_t\<close> a 64-bit word, both
  compared with the signed orders \<open>\<le>s\<close> and \<open><s\<close>; \<open>unsigned int\<close> and
  \<open>uint256\<close> are words compared with the unsigned order.  Declarations of
  the repository that the translation unit only includes (the version
  ceiling, the retention period, the hash functions, the key classes) are
  parameters of the functions that use them.
\<close>

subsection \<open>Primitive types\<close>

type_synonym int32_t = "32 word"
type_synonym uint32_t = "32 word"
type_synonym int64_t = "64 word"
type_synonym uint256 = "256 word"
type_synonym bytes = "8 word list"

text \<open>\<open>CPubKey\<close> wraps the raw bytes of a public key.\<close>

type_synonym CPubKey = bytes

subsection \<open>Variant codecs\<close>

datatype ContractType =
  BEACON | POLL | PROJECT | PROTOCOL | SCRAPER | SUPERBLOCK | VOTE
  | ContractType_UNKNOWN

datatype ContractAction = ADD | REMOVE | ContractAction_UNKNOWN

text \<open>
  \<open>EnumVariant\<close>: an enumerator together with the optional string that
  keeps a token the enumeration does not know.  Comparing a variant with an
  enumerator (\<open>m_type != ContractType::UNKNOWN\<close>) compares \<open>Value\<close>.
\<close>

datatype 'e EnumVariant = EnumVariant (Value: 'e) (m_other: "string option")

text \<open>The three constructors of \<open>Contract::Type\<close>.\<close>

definition Type_enum :: "ContractType \<Rightarrow> ContractType EnumVariant" where
  "Type_enum t = EnumVariant t None"

definition Type_other :: "string \<Rightarrow> ContractType EnumVariant" where
  "Type_other other = EnumVariant ContractType_UNKNOWN (Some other)"

definition Type_enum_other :: "ContractType \<Rightarrow> string \<Rightarrow> ContractType EnumVariant" where
  "Type_enum_other t other = EnumVariant t (Some other)"

definition Type_Parse :: "string \<Rightarrow> ContractType EnumVariant" where
  "Type_Parse input =
    (if input = [] then Type_enum ContractType_UNKNOWN
     else if input = ''beacon'' then Type_enum BEACON
     else if input = ''vote'' then Type_enum VOTE
     else if input = ''poll'' then Type_enum POLL
     else if input = ''project'' then Type_enum PROJECT
     else if input = ''scraper'' then Type_enum SCRAPER
     else if input = ''protocol'' then Type_enum PROTOCOL
     else if input = ''superblock'' then Type_enum SUPERBLOCK
     else if input = ''projectmapping'' then Type_enum_other PROJECT ''projectmapping''
     else Type_other input)"

definition Type_ToString :: "ContractType EnumVariant \<Rightarrow> string" where
  "Type_ToString v =
    (case m_other v of
       Some other \<Rightarrow> other
     | None \<Rightarrow>
        (case Value v of
           BEACON \<Rightarrow> ''beacon''
         | POLL \<Rightarrow> ''poll''
         | PROJECT \<Rightarrow> ''project''
         | PROTOCOL \<Rightarrow> ''protocol''
         | SCRAPER \<Rightarrow> ''scraper''
         | SUPERBLOCK \<Rightarrow> ''superblock''
         | VOTE \<Rightarrow> ''vote''
         | _ \<Rightarrow> []))"

text \<open>The two constructors of \<open>Contract::Action\<close>.\<close>

definition Action_enum :: "ContractAction \<Rightarrow> ContractAction EnumVariant" where
  "Action_enum a = EnumVariant a None"

definition Action_other :: "string \<Rightarrow> ContractAction EnumVariant" where
  "Action_other other = EnumVariant ContractAction_UNKNOWN (Some other)"

definition Action_Parse :: "string \<Rightarrow> ContractAction EnumVariant" where
  "Action_Parse input =
    (if input = [] then Action_enum ContractAction_UNKNOWN
     else if input = ''A'' then Action_enum ADD
     else if input = ''D'' then Action_enum REMOVE
     else Action_other input)"

definition Action_ToString :: "ContractAction EnumVariant \<Rightarrow> string" where
  "Action_ToString v =
    (case m_other v of
       Some other \<Rightarrow> other
     | None \<Rightarrow>
        (case Value v of
           ADD \<Rightarrow> ''A''
         | REMOVE \<Rightarrow> ''D''
         | _ \<Rightarrow> []))"

subsection \<open>Signature and public key wrappers\<close>

text \<open>
  \<open>Contract::Signature\<close> holds the bytes \<open>m_bytes\<close>; \<open>Contract::PublicKey\<close>
  holds a \<open>CPubKey\<close>, written \<open>pubkey\<close> here.
\<close>

definition Signature_Viable :: "bytes \<Rightarrow> bool" where
  "Signature_Viable m_bytes = (64 \<le> length m_bytes \<and> length m_bytes \<le> 73)"

text \<open>\<open>CPubKey::IsValid\<close> is declared in key.h: a parameter.\<close>

definition PublicKey_Viable :: "(CPubKey \<Rightarrow> bool) \<Rightarrow> CPubKey \<Rightarrow> bool" where
  "PublicKey_Viable IsValid pubkey = IsValid pubkey"

subsection \<open>The contract envelope\<close>

record Contract =
  m_version :: int32_t
  m_type :: "ContractType EnumVariant"
  m_action :: "ContractAction EnumVariant"
  m_key :: string
  m_value :: string
  m_signature :: bytes
  m_public_key :: CPubKey
  m_nonce :: uint32_t
  m_timestamp :: int64_t
  m_tx_timestamp :: int64_t
  m_hash_cache :: uint256

definition MasterPublicKey :: CPubKey where
  "MasterPublicKey =
    [0x04, 0x9a, 0xc0, 0x03, 0xb3, 0x31, 0x8d, 0x9f, 0xe2, 0x8b, 0x28,
     0x30, 0xf6, 0xa9, 0x5a, 0x26, 0x24, 0xce, 0x2a, 0x69, 0xfb, 0x0c,
     0x0c, 0x7a, 0xc0, 0xb5, 0x13, 0xef, 0xcc, 0x1e, 0x93, 0xa6, 0xa6,
     0xe8, 0xeb, 0xa8, 0x44, 0x81, 0x15, 0x5d, 0xd8, 0x2f, 0x2f, 0x11,
     0x04, 0xe0, 0xff, 0x62, 0xc6, 0x9d, 0x66, 0x2b, 0x00, 0x94, 0x63,
     0x9b, 0x71, 0x06, 0xab, 0xc5, 0xd8, 0x4f, 0x94, 0x8c, 0x0a]"

definition MessagePublicKey :: CPubKey where
  "MessagePublicKey =
    [0x04, 0x4b, 0x29, 0x38, 0xfb, 0xc3, 0x80, 0x71, 0xf2, 0x4b, 0xed,
     0xe2, 0x1e, 0x83, 0x8a, 0x07, 0x58, 0xa5, 0x2a, 0x00, 0x85, 0xf2,
     0xe0, 0x34, 0xe7, 0xf9, 0x71, 0xdf, 0x44, 0x54, 0x36, 0xa2, 0x52,
     0x46, 0x7f, 0x69, 0x2e, 0xc9, 0xc5, 0xba, 0x7e, 0x5e, 0xaa, 0x89,
     0x8a, 0xb9, 0x9c, 0xbd, 0x99, 0x49, 0x49, 0x6f, 0x7e, 0x3c, 0xaf,
     0xbf, 0x56, 0x30, 0x4b, 0x1c, 0xc2, 0xe5, 0xbd, 0xf0, 0x6e]"

subsection \<open>Key resolver\<close>

definition RequiresMasterKey :: "Contract \<Rightarrow> bool" where
  "RequiresMasterKey c =
    (case Value (m_type c) of
       BEACON \<Rightarrow> Value (m_action c) = REMOVE
     | POLL \<Rightarrow> Value (m_action c) = REMOVE
     | PROJECT \<Rightarrow> True
     | PROTOCOL \<Rightarrow> True
     | SCRAPER \<Rightarrow> True
     | VOTE \<Rightarrow> Value (m_action c) = REMOVE
     | _ \<Rightarrow> False)"

definition RequiresMessageKey :: "Contract \<Rightarrow> bool" where
  "RequiresMessageKey c =
    (case Value (m_type c) of
       BEACON \<Rightarrow> Value (m_action c) = ADD
     | POLL \<Rightarrow> Value (m_action c) = ADD
     | VOTE \<Rightarrow> Value (m_action c) = ADD
     | _ \<Rightarrow> False)"

definition RequiresSpecialKey :: "Contract \<Rightarrow> bool" where
  "RequiresSpecialKey c = (RequiresMessageKey c \<or> RequiresMasterKey c)"

definition ResolvePublicKey :: "Contract \<Rightarrow> CPubKey" where
  "ResolvePublicKey c =
    (if RequiresMessageKey c then MessagePublicKey
     else if RequiresMasterKey c then MasterPublicKey
     else m_public_key c)"

text \<open>\<open>Contract::CURRENT_VERSION\<close> is declared in contract.h: a parameter.\<close>

definition WellFormed :: "(CPubKey \<Rightarrow> bool) \<Rightarrow> int32_t \<Rightarrow> Contract \<Rightarrow> bool" where
  "WellFormed IsValid CURRENT_VERSION c =
    (0 <s m_version c \<and> m_version c \<le>s CURRENT_VERSION
     \<and> Value (m_type c) \<noteq> ContractType_UNKNOWN
     \<and> Value (m_action c) \<noteq> ContractAction_UNKNOWN
     \<and> m_key c \<noteq> []
     \<and> m_value c \<noteq> []
     \<and> Signature_Viable (m_signature c)
     \<and> (RequiresSpecialKey c \<or> PublicKey_Viable IsValid (m_public_key c))
     \<and> 0 <s m_tx_timestamp c
     \<and> (m_version c = 1 \<or> (0 <s m_timestamp c \<and> 0 < m_nonce c)))"

subsection \<open>Hashing\<close>

text \<open>
  \<open>SerializeHash\<close> (the hash of the serialized contract) and the three-range
  \<open>Hash\<close> are declared in the hashing headers: parameters.  \<open>GetHash\<close> is a
  const method that writes the mutable \<open>m_hash_cache\<close>, so it returns the
  contract as well.
\<close>

definition GetHash ::
  "(Contract \<Rightarrow> uint256) \<Rightarrow> (string \<Rightarrow> string \<Rightarrow> string \<Rightarrow> uint256)
    \<Rightarrow> Contract \<Rightarrow> uint256 \<times> Contract" where
  "GetHash SerializeHash Hash c =
    (if 0 < m_hash_cache c then (m_hash_cache c, c)
     else if 1 <s m_version c then
       (let h = SerializeHash c in (h, c\<lparr>m_hash_cache := h\<rparr>))
     else
       (let type_string = Type_ToString (m_type c);
            h = Hash type_string (m_key c) (m_value c)
        in (h, c\<lparr>m_hash_cache := h\<rparr>)))"

subsection \<open>Logging\<close>

text \<open>
  A line of the debug log: \<open>Contract::Log\<close> prints its prefix and the fields
  of the contract; \<open>error\<close> prints a format string and its argument.
\<close>

datatype LogLine = ContractLog string Contract | ErrorLog string string

definition Contract_Log :: "bool \<Rightarrow> string \<Rightarrow> Contract \<Rightarrow> LogLine list \<Rightarrow> LogLine list" where
  "Contract_Log fDebug log_prefix c lines =
    (if \<not> fDebug then lines else lines @ [ContractLog log_prefix c])"

subsection \<open>Signing\<close>

text \<open>
  \<open>CKey\<close> is declared in key.h: \<open>private_key_Sign\<close> is the signing operation
  of the key (\<open>None\<close> when it returns false, the output otherwise) and
  \<open>private_key_GetPubKey\<close> its public key.  \<open>now\<close> is the value of
  \<open>GetAdjustedTime()\<close> and \<open>random\<close> the four bytes \<open>RAND_bytes\<close> writes
  over the nonce.
\<close>

definition Sign ::
  "(Contract \<Rightarrow> uint256) \<Rightarrow> (string \<Rightarrow> string \<Rightarrow> string \<Rightarrow> uint256)
    \<Rightarrow> int64_t \<Rightarrow> uint32_t \<Rightarrow> bool \<Rightarrow> (uint256 \<Rightarrow> bytes option) \<Rightarrow> CPubKey
    \<Rightarrow> Contract \<Rightarrow> LogLine list \<Rightarrow> bool \<times> Contract \<times> LogLine list" where
  "Sign SerializeHash Hash now random fDebug private_key_Sign private_key_GetPubKey c lines =
    (let c1 = c\<lparr>m_hash_cache := 0\<rparr>;
         c2 = (if 1 <s m_version c1 then c1\<lparr>m_timestamp := now, m_nonce := random\<rparr> else c1)
     in case GetHash SerializeHash Hash c2 of
          (h, c3) \<Rightarrow>
            (case private_key_Sign h of
               None \<Rightarrow> (False, c3, Contract_Log fDebug ''ERROR: Failed to sign contract'' c3 lines)
             | Some output \<Rightarrow>
                (let c4 = c3\<lparr>m_signature := output\<rparr>;
                     c5 = (if \<not> RequiresSpecialKey c4
                           then c4\<lparr>m_public_key := private_key_GetPubKey\<rparr> else c4)
                 in (True, c5, lines))))"

subsection \<open>Parsing and printing\<close>

text \<open>The default constructor \<open>Contract::Contract()\<close>.\<close>

definition Contract_default :: "int32_t \<Rightarrow> Contract" where
  "Contract_default CURRENT_VERSION =
    \<lparr>m_version = CURRENT_VERSION,
     m_type = Type_enum ContractType_UNKNOWN,
     m_action = Action_enum ContractAction_UNKNOWN,
     m_key = [], m_value = [], m_signature = [], m_public_key = [],
     m_nonce = 0, m_timestamp = 0, m_tx_timestamp = 0, m_hash_cache = 0\<rparr>"

text \<open>\<open>std::string::c_str\<close> as a C string: the characters before the first NUL.\<close>

definition c_str :: "string \<Rightarrow> string" where
  "c_str s = takeWhile (\<lambda>ch. ch \<noteq> CHR 0x00) s"

text \<open>
  \<open>DecodeBase64\<close> is declared in util.h: a parameter that returns the decoded
  bytes and the \<open>invalid\<close> flag.
\<close>

definition Signature_Parse :: "(string \<Rightarrow> bytes \<times> bool) \<Rightarrow> string \<Rightarrow> bytes" where
  "Signature_Parse DecodeBase64 input =
    (if input = [] then []
     else case DecodeBase64 (c_str input) of
            (decoded, invalid) \<Rightarrow> if invalid then [] else decoded)"

text \<open>\<open>ExtractXML\<close> is only declared in this translation unit: a parameter.\<close>

definition Contract_Parse ::
  "(string \<Rightarrow> string \<Rightarrow> string \<Rightarrow> string) \<Rightarrow> (string \<Rightarrow> bytes \<times> bool) \<Rightarrow> int32_t
    \<Rightarrow> string \<Rightarrow> int64_t \<Rightarrow> Contract" where
  "Contract_Parse ExtractXML DecodeBase64 CURRENT_VERSION message timestamp =
    (if message = [] then Contract_default CURRENT_VERSION
     else
      \<lparr>m_version = 1,
       m_type = Type_Parse (ExtractXML message ''<MT>'' ''</MT>''),
       m_action = Action_Parse (ExtractXML message ''<MA>'' ''</MA>''),
       m_key = ExtractXML message ''<MK>'' ''</MK>'',
       m_value = ExtractXML message ''<MV>'' ''</MV>'',
       m_signature = Signature_Parse DecodeBase64 (ExtractXML message ''<MS>'' ''</MS>''),
       m_public_key = [],
       m_nonce = 0, m_timestamp = 0, m_tx_timestamp = timestamp, m_hash_cache = 0\<rparr>)"

text \<open>\<open>EncodeBase64\<close> and \<open>HexStr\<close> are declared in util.h: parameters.\<close>

definition Signature_ToString :: "(bytes \<Rightarrow> string) \<Rightarrow> bytes \<Rightarrow> string" where
  "Signature_ToString EncodeBase64 m_bytes = (if m_bytes = [] then [] else EncodeBase64 m_bytes)"

definition PublicKey_ToString :: "(bytes \<Rightarrow> string) \<Rightarrow> CPubKey \<Rightarrow> string" where
  "PublicKey_ToString HexStr pubkey = HexStr pubkey"

definition Contract_ToString :: "(bytes \<Rightarrow> string) \<Rightarrow> (bytes \<Rightarrow> string) \<Rightarrow> Contract \<Rightarrow> string" where
  "Contract_ToString HexStr EncodeBase64 c =
    ''<MT>'' @ Type_ToString (m_type c) @ ''</MT>''
    @ ''<MK>'' @ m_key c @ ''</MK>''
    @ ''<MV>'' @ m_value c @ ''</MV>''
    @ ''<MA>'' @ Action_ToString (m_action c) @ ''</MA>''
    @ ''<MPK>'' @ PublicKey_ToString HexStr (m_public_key c) @ ''</MPK>''
    @ ''<MS>'' @ Signature_ToString EncodeBase64 (m_signature c) @ ''</MS>''"

subsection \<open>Replay pool\<close>

datatype ReplayPoolItem = ReplayPoolItem (item_timestamp: int64_t) (item_hash: uint256)

text \<open>
  \<open>Contract::ReplayPeriod\<close>: \<open>now\<close> is the value of \<open>GetAdjustedTime()\<close>;
  \<open>REPLAY_RETENTION_PERIOD\<close> is declared in contract.h: a parameter.
\<close>

definition ReplayPeriod :: "int64_t \<Rightarrow> int64_t \<Rightarrow> int64_t" where
  "ReplayPeriod now REPLAY_RETENTION_PERIOD = now - REPLAY_RETENTION_PERIOD"

text \<open>
  The loop of \<open>CheckReplay\<close> over the pool from the iterator's position: the
  result is the return value, what the list holds from that position on when
  the function returns, and the contract (its hash cache written).
\<close>

fun CheckReplay_scan ::
  "(Contract \<Rightarrow> uint256) \<Rightarrow> (string \<Rightarrow> string \<Rightarrow> string \<Rightarrow> uint256)
    \<Rightarrow> int64_t \<Rightarrow> Contract \<Rightarrow> ReplayPoolItem list
    \<Rightarrow> bool \<times> ReplayPoolItem list \<times> Contract" where
  "CheckReplay_scan SerializeHash Hash valid_after_time c [] = (True, [], c)"
| "CheckReplay_scan SerializeHash Hash valid_after_time c (item # rest) =
    (case GetHash SerializeHash Hash c of
       (h, c') \<Rightarrow>
         if item_hash item = h then (False, item # rest, c')
         else if item_timestamp item <s valid_after_time
           then CheckReplay_scan SerializeHash Hash valid_after_time c' rest
         else
           (case CheckReplay_scan SerializeHash Hash valid_after_time c' rest of
              (unique, pool, c'') \<Rightarrow> (unique, item # pool, c'')))"

definition CheckReplay ::
  "(Contract \<Rightarrow> uint256) \<Rightarrow> (string \<Rightarrow> string \<Rightarrow> string \<Rightarrow> uint256)
    \<Rightarrow> int64_t \<Rightarrow> int64_t \<Rightarrow> Contract \<Rightarrow> ReplayPoolItem list
    \<Rightarrow> bool \<times> ReplayPoolItem list \<times> Contract" where
  "CheckReplay SerializeHash Hash now REPLAY_RETENTION_PERIOD c m_replay_pool =
    (let valid_after_time = ReplayPeriod now REPLAY_RETENTION_PERIOD in
     if m_timestamp c <s valid_after_time then (False, m_replay_pool, c)
     else CheckReplay_scan SerializeHash Hash valid_after_time c m_replay_pool)"

definition TrackForReplay ::
  "(Contract \<Rightarrow> uint256) \<Rightarrow> (string \<Rightarrow> string \<Rightarrow> string \<Rightarrow> uint256)
    \<Rightarrow> Contract \<Rightarrow> ReplayPoolItem list \<Rightarrow> ReplayPoolItem list \<times> Contract" where
  "TrackForReplay SerializeHash Hash c m_replay_pool =
    (case GetHash SerializeHash Hash c of
       (h, c') \<Rightarrow> (m_replay_pool @ [ReplayPoolItem (m_timestamp c) h], c'))"

subsection \<open>Contract handlers\<close>

text \<open>
  Modelled from the spec: \<open>WriteCache\<close>, \<open>DeleteCache\<close> and
  \<open>StringToSection\<close> of appcache.h, which this translation unit only
  includes.  The spec's legacy key-value collaborator: on Add the core writes
  (section = type-as-string, key, value, tx_timestamp), on Delete it removes
  (section, key).  The store is a map from (section, key) to (value,
  timestamp), and a section is named by its string.
\<close>

type_synonym AppCache = "(string \<times> string) \<rightharpoonup> (string \<times> int64_t)"

definition StringToSection :: "string \<Rightarrow> string" where
  "StringToSection s = s"

definition WriteCache :: "string \<Rightarrow> string \<Rightarrow> string \<Rightarrow> int64_t \<Rightarrow> AppCache \<Rightarrow> AppCache" where
  "WriteCache sect k v ts cache = cache((sect, k) \<mapsto> (v, ts))"

definition DeleteCache :: "string \<Rightarrow> string \<Rightarrow> AppCache \<Rightarrow> AppCache" where
  "DeleteCache sect k cache = cache((sect, k) := None)"

text \<open>
  The process-wide state the handlers work on: the debug flag and log, the
  application cache, the global poll title \<open>msPoll\<close>, and the state of the
  collaborators defined elsewhere (the beacon directory and the whitelist).
\<close>

record 'x World =
  fDebug :: bool
  debug_log :: "LogLine list"
  AppCache :: AppCache
  msPoll :: string
  collaborators :: 'x

text \<open>\<open>Contract::Log\<close> and \<open>error\<close> on the process-wide log.\<close>

definition Log :: "string \<Rightarrow> Contract \<Rightarrow> 'x World \<Rightarrow> 'x World" where
  "Log log_prefix c w = w\<lparr>debug_log := Contract_Log (fDebug w) log_prefix c (debug_log w)\<rparr>"

definition error_log :: "string \<Rightarrow> string \<Rightarrow> 'x World \<Rightarrow> 'x World" where
  "error_log format arg w = w\<lparr>debug_log := debug_log w @ [ErrorLog format arg]\<rparr>"

text \<open>The interface \<open>IContractHandler\<close>: an object is its three virtual methods.\<close>

record 'x IContractHandler =
  Add :: "Contract \<Rightarrow> 'x World \<Rightarrow> 'x World"
  Delete :: "Contract \<Rightarrow> 'x World \<Rightarrow> 'x World"
  Revert :: "Contract \<Rightarrow> 'x World \<Rightarrow> 'x World"

text \<open>
  The default \<open>IContractHandler::Revert\<close>, given the \<open>Add\<close> and \<open>Delete\<close>
  of the object it is called on.
\<close>

definition IContractHandler_Revert ::
  "(Contract \<Rightarrow> 'x World \<Rightarrow> 'x World) \<Rightarrow> (Contract \<Rightarrow> 'x World \<Rightarrow> 'x World)
    \<Rightarrow> Contract \<Rightarrow> 'x World \<Rightarrow> 'x World" where
  "IContractHandler_Revert this_Add this_Delete contract w =
    (if Value (m_action contract) = ADD then this_Delete contract w
     else if Value (m_action contract) = REMOVE then this_Add contract w
     else error_log ''Unknown contract action ignored: %s''
            (Action_ToString (m_action contract)) w)"

definition AppCacheContractHandler_Add ::
  "(bytes \<Rightarrow> string) \<Rightarrow> (bytes \<Rightarrow> string) \<Rightarrow> Contract \<Rightarrow> 'x World \<Rightarrow> 'x World" where
  "AppCacheContractHandler_Add HexStr EncodeBase64 contract w =
    (let w1 = w\<lparr>AppCache :=
                 WriteCache (StringToSection (Type_ToString (m_type contract)))
                   (m_key contract) (m_value contract) (m_tx_timestamp contract)
                   (AppCache w)\<rparr>
     in if Value (m_type contract) = POLL
        then w1\<lparr>msPoll := Contract_ToString HexStr EncodeBase64 contract\<rparr>
        else w1)"

definition AppCacheContractHandler_Delete :: "Contract \<Rightarrow> 'x World \<Rightarrow> 'x World" where
  "AppCacheContractHandler_Delete contract w =
    w\<lparr>AppCache :=
        DeleteCache (StringToSection (Type_ToString (m_type contract)))
          (m_key contract) (AppCache w)\<rparr>"

definition AppCacheContractHandler ::
  "(bytes \<Rightarrow> string) \<Rightarrow> (bytes \<Rightarrow> string) \<Rightarrow> 'x IContractHandler" where
  "AppCacheContractHandler HexStr EncodeBase64 =
    \<lparr>Add = AppCacheContractHandler_Add HexStr EncodeBase64,
     Delete = AppCacheContractHandler_Delete,
     Revert = IContractHandler_Revert
                (AppCacheContractHandler_Add HexStr EncodeBase64)
                AppCacheContractHandler_Delete\<rparr>"

definition UnknownContractHandler :: "'x IContractHandler" where
  "UnknownContractHandler =
    \<lparr>Add = Log ''WARNING: Add unknown contract type ignored'',
     Delete = Log ''WARNING: Delete unknown contract type ignored'',
     Revert = Log ''WARNING: Revert unknown contract type ignored''\<rparr>"

subsection \<open>Dispatcher\<close>

text \<open>
  \<open>GetBeaconDirectory()\<close> and \<open>GetWhitelist()\<close> are defined in beacon.h and
  project.h: the two handlers are parameters.
\<close>

definition GetHandler ::
  "'x IContractHandler \<Rightarrow> 'x IContractHandler \<Rightarrow> (bytes \<Rightarrow> string) \<Rightarrow> (bytes \<Rightarrow> string)
    \<Rightarrow> ContractType \<Rightarrow> 'x IContractHandler" where
  "GetHandler BeaconDirectory Whitelist HexStr EncodeBase64 t =
    (case t of
       BEACON \<Rightarrow> BeaconDirectory
     | POLL \<Rightarrow> AppCacheContractHandler HexStr EncodeBase64
     | PROJECT \<Rightarrow> Whitelist
     | PROTOCOL \<Rightarrow> AppCacheContractHandler HexStr EncodeBase64
     | SCRAPER \<Rightarrow> AppCacheContractHandler HexStr EncodeBase64
     | VOTE \<Rightarrow> AppCacheContractHandler HexStr EncodeBase64
     | _ \<Rightarrow> UnknownContractHandler)"

definition Dispatcher_Apply ::
  "'x IContractHandler \<Rightarrow> 'x IContractHandler \<Rightarrow> (bytes \<Rightarrow> string) \<Rightarrow> (bytes \<Rightarrow> string)
    \<Rightarrow> Contract \<Rightarrow> 'x World \<Rightarrow> 'x World" where
  "Dispatcher_Apply BeaconDirectory Whitelist HexStr EncodeBase64 contract w =
    (if Value (m_action contract) = ADD then
       Add (GetHandler BeaconDirectory Whitelist HexStr EncodeBase64 (Value (m_type contract)))
         contract (Log ''INFO: Add contract'' contract w)
     else if Value (m_action contract) = REMOVE then
       Delete (GetHandler BeaconDirectory Whitelist HexStr EncodeBase64 (Value (m_type contract)))
         contract (Log ''INFO: Delete contract'' contract w)
     else Log ''WARNING: Unknown contract action ignored'' contract w)"

definition Dispatcher_Revert ::
  "'x IContractHandler \<Rightarrow> 'x IContractHandler \<Rightarrow> (bytes \<Rightarrow> string) \<Rightarrow> (bytes \<Rightarrow> string)
    \<Rightarrow> Contract \<Rightarrow> 'x World \<Rightarrow> 'x World" where
  "Dispatcher_Revert BeaconDirectory Whitelist HexStr EncodeBase64 contract w =
    Revert (GetHandler BeaconDirectory Whitelist HexStr EncodeBase64 (Value (m_type contract)))
      contract (Log ''INFO: Revert contract'' contract w)"

subsection \<open>Example inputs\<close>

text \<open>
  Concrete stand-ins for the two hash functions, two contracts and a replay
  pool, on which the properties below are evaluated.
\<close>

definition example_SerializeHash :: "Contract \<Rightarrow> uint256" where
  "example_SerializeHash c = of_nat (length (m_key c) + length (m_value c)) + 1"

definition example_Hash :: "string \<Rightarrow> string \<Rightarrow> string \<Rightarrow> uint256" where
  "example_Hash a b c = of_nat (length (a @ b @ c))"

definition example_contract_v2 :: Contract where
  "example_contract_v2 =
    \<lparr>m_version = 2, m_type = Type_enum BEACON, m_action = Action_enum ADD,
     m_key = ''abc'', m_value = ''pubkeyhex'', m_signature = replicate 70 0,
     m_public_key = [], m_nonce = 7, m_timestamp = 100, m_tx_timestamp = 120,
     m_hash_cache = 0\<rparr>"

definition example_contract_v1 :: Contract where
  "example_contract_v1 =
    \<lparr>m_version = 1, m_type = Type_enum BEACON, m_action = Action_enum ADD,
     m_key = ''abc'', m_value = ''pubkeyhex'', m_signature = replicate 70 0,
     m_public_key = [], m_nonce = 0, m_timestamp = 0, m_tx_timestamp = 120,
     m_hash_cache = 0\<rparr>"

definition example_pool :: "ReplayPoolItem list" where
  "example_pool = [ReplayPoolItem 10 3, ReplayPoolItem 105 9]"

definition example_private_key_Sign :: "uint256 \<Rightarrow> bytes option" where
  "example_private_key_Sign h = (if h = 13 then None else Some (replicate 70 1))"

section \<open>Properties\<close>

subsection \<open>Well-formedness\<close>

lemma int32_positive_iff: "(0 <s (v :: int32_t)) = (1 \<le>s v)"
  by (simp add: word_sless_alt word_sle_eq) arith

text \<open>
  C1.  \<open>WellFormed\<close> holds exactly when the version is at least 1 and at most
  \<open>CURRENT_VERSION\<close>, neither the type nor the action is the unknown
  enumerator, key and value are non-empty, the signature has between 64 and 73
  bytes, a special key is required or the embedded public key is viable, the
  transaction timestamp is positive, and the version is 1 or both the signing
  timestamp is positive and the nonce is nonzero.
\<close>

theorem WellFormed_iff:
  "WellFormed IsValid CURRENT_VERSION c =
    (1 \<le>s m_version c \<and> m_version c \<le>s CURRENT_VERSION
     \<and> Value (m_type c) \<noteq> ContractType_UNKNOWN
     \<and> Value (m_action c) \<noteq> ContractAction_UNKNOWN
     \<and> m_key c \<noteq> []
     \<and> m_value c \<noteq> []
     \<and> 64 \<le> length (m_signature c) \<and> length (m_signature c) \<le> 73
     \<and> (RequiresSpecialKey c \<or> IsValid (m_public_key c))
     \<and> 0 <s m_tx_timestamp c
     \<and> (m_version c = 1 \<or> (0 <s m_timestamp c \<and> m_nonce c \<noteq> 0)))"
  unfolding WellFormed_def Signature_Viable_def PublicKey_Viable_def
  by (simp add: int32_positive_iff word_greater_zero_iff)

subsection \<open>Key resolver\<close>

text \<open>
  C2.  \<open>RequiresMasterKey\<close> holds exactly when the action is REMOVE and the
  type is BEACON, POLL or VOTE, or the type is PROJECT, PROTOCOL or SCRAPER
  whatever the action; \<open>RequiresMessageKey\<close> holds exactly when the action is
  ADD and the type is BEACON, POLL or VOTE; \<open>ResolvePublicKey\<close> is the message
  key when the message key is required, else the master key when the master key
  is required, else the embedded public key.
\<close>

theorem key_requirements:
  "(RequiresMasterKey c =
      ((Value (m_action c) = REMOVE
          \<and> (Value (m_type c) = BEACON \<or> Value (m_type c) = POLL \<or> Value (m_type c) = VOTE))
       \<or> Value (m_type c) = PROJECT \<or> Value (m_type c) = PROTOCOL
       \<or> Value (m_type c) = SCRAPER))
   \<and> (RequiresMessageKey c =
      (Value (m_action c) = ADD
          \<and> (Value (m_type c) = BEACON \<or> Value (m_type c) = POLL \<or> Value (m_type c) = VOTE)))
   \<and> ResolvePublicKey c =
      (if RequiresMessageKey c then MessagePublicKey
       else if RequiresMasterKey c then MasterPublicKey
       else m_public_key c)"
  unfolding RequiresMasterKey_def RequiresMessageKey_def ResolvePublicKey_def
  by (cases "Value (m_type c)") simp_all

text \<open>
  C9.  No contract requires both the master key and the message key, whatever
  its type and action (unknown tokens included: their enumerator is the unknown
  one).  So the order in which \<open>ResolvePublicKey\<close> asks the two questions does
  not matter: asking for the master key first resolves the same key.
\<close>

theorem special_keys_exclusive:
  "\<not> (RequiresMasterKey c \<and> RequiresMessageKey c)
   \<and> ResolvePublicKey c =
      (if RequiresMasterKey c then MasterPublicKey
       else if RequiresMessageKey c then MessagePublicKey
       else m_public_key c)"
  unfolding RequiresMasterKey_def RequiresMessageKey_def ResolvePublicKey_def
  by (cases "Value (m_type c)") auto


subsection \<open>Variant codecs\<close>

text \<open>
  C7.  Printing what \<open>Type::Parse\<close> or \<open>Action::Parse\<close> returns gives the
  token back, for every token; parsing the printed form of an enumerator gives
  the enumerator back.  A token that is neither empty nor a canonical type name
  is kept in the optional string, and the enumerator is then the unknown one,
  but for \<open>projectmapping\<close>, which parses to PROJECT and still prints as
  \<open>projectmapping\<close>.  Likewise for actions, with the tokens \<open>A\<close> and \<open>D\<close>.
\<close>

theorem codecs_round_trip:
  "Type_ToString (Type_Parse token) = token
   \<and> Type_Parse (Type_ToString (Type_enum t)) = Type_enum t
   \<and> m_other (Type_Parse token) =
       (if token \<in> set [[], ''beacon'', ''vote'', ''poll'', ''project'', ''scraper'',
             ''protocol'', ''superblock'']
        then None else Some token)
   \<and> Value (Type_Parse token) =
       (if token = ''beacon'' then BEACON
        else if token = ''vote'' then VOTE
        else if token = ''poll'' then POLL
        else if token = ''project'' \<or> token = ''projectmapping'' then PROJECT
        else if token = ''scraper'' then SCRAPER
        else if token = ''protocol'' then PROTOCOL
        else if token = ''superblock'' then SUPERBLOCK
        else ContractType_UNKNOWN)
   \<and> Type_Parse ''projectmapping'' = EnumVariant PROJECT (Some ''projectmapping'')
   \<and> Type_ToString (Type_Parse ''projectmapping'') = ''projectmapping''
   \<and> Action_ToString (Action_Parse token) = token
   \<and> Action_Parse (Action_ToString (Action_enum a)) = Action_enum a
   \<and> Action_Parse token =
       (if token = [] then EnumVariant ContractAction_UNKNOWN None
        else if token = ''A'' then EnumVariant ADD None
        else if token = ''D'' then EnumVariant REMOVE None
        else EnumVariant ContractAction_UNKNOWN (Some token))"
proof -
  have t1: "Type_ToString (Type_Parse token) = token"
    unfolding Type_Parse_def Type_ToString_def Type_enum_def Type_other_def Type_enum_other_def
    by simp
  have t2: "Type_Parse (Type_ToString (Type_enum t)) = Type_enum t"
    unfolding Type_Parse_def Type_ToString_def Type_enum_def Type_other_def Type_enum_other_def
    by (cases t) simp_all
  have t3: "m_other (Type_Parse token) =
       (if token \<in> set [[], ''beacon'', ''vote'', ''poll'', ''project'', ''scraper'',
             ''protocol'', ''superblock'']
        then None else Some token)"
    unfolding Type_Parse_def Type_enum_def Type_other_def Type_enum_other_def
    by simp
  have t4: "Value (Type_Parse token) =
       (if token = ''beacon'' then BEACON
        else if token = ''vote'' then VOTE
        else if token = ''poll'' then POLL
        else if token = ''project'' \<or> token = ''projectmapping'' then PROJECT
        else if token = ''scraper'' then SCRAPER
        else if token = ''protocol'' then PROTOCOL
        else if token = ''superblock'' then SUPERBLOCK
        else ContractType_UNKNOWN)"
    unfolding Type_Parse_def Type_enum_def Type_other_def Type_enum_other_def
    by simp
  have t5: "Type_Parse ''projectmapping'' = EnumVariant PROJECT (Some ''projectmapping'')"
    unfolding Type_Parse_def Type_enum_other_def by simp
  have t6: "Type_ToString (Type_Parse ''projectmapping'') = ''projectmapping''"
    unfolding t5 Type_ToString_def by simp
  have a1: "Action_ToString (Action_Parse token) = token"
    unfolding Action_Parse_def Action_ToString_def Action_enum_def Action_other_def
    by simp
  have a2: "Action_Parse (Action_ToString (Action_enum a)) = Action_enum a"
    unfolding Action_Parse_def Action_ToString_def Action_enum_def Action_other_def
    by (cases a) simp_all
  have a3: "Action_Parse token =
       (if token = [] then EnumVariant ContractAction_UNKNOWN None
        else if token = ''A'' then EnumVariant ADD None
        else if token = ''D'' then EnumVariant REMOVE None
        else EnumVariant ContractAction_UNKNOWN (Some token))"
    unfolding Action_Parse_def Action_enum_def Action_other_def by simp
  from t1 t2 t3 t4 t5 t6 a1 a2 a3 show ?thesis by blast
qed

subsection \<open>The hash cache\<close>

lemma hash_cache_zero_id: "m_hash_cache c = 0 \<Longrightarrow> c\<lparr>m_hash_cache := 0\<rparr> = c"
  by (cases c) simp

lemma GetHash_cache_only:
  "GetHash SH H c = (h, c') \<Longrightarrow> c' = c\<lparr>m_hash_cache := h\<rparr>"
  unfolding GetHash_def
  by (auto simp: Let_def split: if_splits)

lemma GetHash_fixed:
  assumes "GetHash SH H c = (h, c')"
  shows "GetHash SH H c' = (h, c')"
proof (cases "0 < m_hash_cache c")
  case True
  then show ?thesis using assms by (auto simp: GetHash_def)
next
  case False
  then have z: "m_hash_cache c = 0" by (simp add: word_greater_zero_iff)
  show ?thesis
  proof (cases "0 < h")
    case True
    then show ?thesis using GetHash_cache_only [OF assms] by (simp add: GetHash_def)
  next
    case False
    then have "h = 0" by (simp add: word_greater_zero_iff)
    then have "c' = c" using GetHash_cache_only [OF assms] z hash_cache_zero_id by simp
    then show ?thesis using assms by simp
  qed
qed

lemma scan_closed_form:
  "GetHash SH H c = (h, c') \<Longrightarrow>
   CheckReplay_scan SH H va c pool =
     (list_all (\<lambda>item. item_hash item \<noteq> h) pool,
      filter (\<lambda>item. \<not> item_timestamp item <s va)
        (takeWhile (\<lambda>item. item_hash item \<noteq> h) pool)
      @ dropWhile (\<lambda>item. item_hash item \<noteq> h) pool,
      if pool = [] then c else c')"
proof (induction pool arbitrary: c)
  case Nil
  then show ?case by simp
next
  case (Cons item rest)
  have fx: "GetHash SH H c' = (h, c')" using Cons.prems by (rule GetHash_fixed)
  show ?case
    by (simp add: Cons.prems Cons.IH [OF fx])
qed

lemma GetHash_fst_snd: "fst (GetHash SH H (snd (GetHash SH H c))) = fst (GetHash SH H c)"
  using GetHash_fixed [of SH H c "fst (GetHash SH H c)" "snd (GetHash SH H c)"] by simp

lemma GetHash_timestamp: "m_timestamp (snd (GetHash SH H c)) = m_timestamp c"
proof -
  have "snd (GetHash SH H c) = c\<lparr>m_hash_cache := fst (GetHash SH H c)\<rparr>"
    by (rule GetHash_cache_only) simp
  then have "m_timestamp (snd (GetHash SH H c))
      = m_timestamp (c\<lparr>m_hash_cache := fst (GetHash SH H c)\<rparr>)"
    by (rule arg_cong)
  then show ?thesis by simp
qed

lemma CheckReplay_scan_eq:
  "CheckReplay_scan SH H va c pool =
     (list_all (\<lambda>item. item_hash item \<noteq> fst (GetHash SH H c)) pool,
      filter (\<lambda>item. \<not> item_timestamp item <s va)
        (takeWhile (\<lambda>item. item_hash item \<noteq> fst (GetHash SH H c)) pool)
      @ dropWhile (\<lambda>item. item_hash item \<noteq> fst (GetHash SH H c)) pool,
      if pool = [] then c else snd (GetHash SH H c))"
  by (rule scan_closed_form) simp

lemma mset_minus_filter:
  "mset xs - mset (filter P xs) = mset (filter (\<lambda>x. \<not> P x) xs)"
proof -
  have "mset xs = mset (filter P xs) + mset (filter (\<lambda>x. \<not> P x) xs)"
    by (induction xs) simp_all
  then show ?thesis
    by (metis add_diff_cancel_left')
qed

subsection \<open>The example inputs evaluated\<close>

lemma example_hash:
  "GetHash example_SerializeHash example_Hash example_contract_v2
      = (13, example_contract_v2\<lparr>m_hash_cache := 13\<rparr>)"
  by (simp add: GetHash_def example_SerializeHash_def example_contract_v2_def word_sless_alt)

lemma example_first_check:
  "CheckReplay example_SerializeHash example_Hash 110 60 example_contract_v2 example_pool
       = (True, [ReplayPoolItem 105 9], example_contract_v2\<lparr>m_hash_cache := 13\<rparr>)"
proof -
  have ts: "m_timestamp example_contract_v2 = 100"
    by (simp add: example_contract_v2_def)
  have hash': "GetHash example_SerializeHash example_Hash (example_contract_v2\<lparr>m_hash_cache := 13\<rparr>)
      = (13, example_contract_v2\<lparr>m_hash_cache := 13\<rparr>)"
    by (simp add: GetHash_def)
  show ?thesis
    by (simp add: CheckReplay_def Let_def ReplayPeriod_def example_pool_def example_hash hash' ts)
qed

subsection \<open>Replay guard\<close>

text \<open>
  C3.  A contract whose signing timestamp is at least \<open>now - REPLAY_RETENTION_PERIOD\<close>
  and whose hash matches no entry of the pool passes \<open>CheckReplay\<close>; after
  \<open>TrackForReplay\<close> on it, a second \<open>CheckReplay\<close> on the same contract, its
  timestamp still inside the window, returns false.  \<open>TrackForReplay\<close> always
  appends the pair of the signing timestamp and the contract hash.
\<close>

theorem replay_guard_detects_resubmission:
  assumes fresh: "ReplayPeriod now R \<le>s m_timestamp c"
    and unseen: "\<forall>item \<in> set pool. item_hash item \<noteq> fst (GetHash SH H c)"
    and still: "ReplayPeriod now' R \<le>s m_timestamp c"
  shows "(case CheckReplay SH H now R c pool of
            (unique, pool1, c1) \<Rightarrow>
              unique
              \<and> (case TrackForReplay SH H c1 pool1 of
                    (pool2, c2) \<Rightarrow>
                      pool2 = pool1 @ [ReplayPoolItem (m_timestamp c) (fst (GetHash SH H c))]
                      \<and> \<not> fst (CheckReplay SH H now' R c2 pool2)))
         \<and> fst (TrackForReplay SH H d p)
             = p @ [ReplayPoolItem (m_timestamp d) (fst (GetHash SH H d))]"
proof -
  define h where "h = fst (GetHash SH H c)"
  define c1 where "c1 = (if pool = [] then c else snd (GetHash SH H c))"
  define pool1 where "pool1 = filter (\<lambda>item. \<not> item_timestamp item <s ReplayPeriod now R) pool"
  define c2 where "c2 = snd (GetHash SH H c1)"
  define pool2 where "pool2 = pool1 @ [ReplayPoolItem (m_timestamp c) h]"
  have nm: "list_all (\<lambda>item. item_hash item \<noteq> h) pool"
    using unseen by (simp add: h_def list_all_iff)
  have tw: "takeWhile (\<lambda>item. item_hash item \<noteq> h) pool = pool"
    and dw: "dropWhile (\<lambda>item. item_hash item \<noteq> h) pool = []"
    using nm by (simp_all add: list_all_iff)
  have first: "CheckReplay SH H now R c pool = (True, pool1, c1)"
  proof -
    have "\<not> m_timestamp c <s ReplayPeriod now R"
      using fresh by (simp add: signed.not_less)
    then have "CheckReplay SH H now R c pool
        = CheckReplay_scan SH H (ReplayPeriod now R) c pool"
      by (simp add: CheckReplay_def Let_def)
    also have "\<dots> = (True, pool1, c1)"
      unfolding CheckReplay_scan_eq h_def [symmetric] tw dw pool1_def c1_def
      using nm by simp
    finally show ?thesis .
  qed
  have h1: "fst (GetHash SH H c1) = h" and t1: "m_timestamp c1 = m_timestamp c"
    by (simp_all add: c1_def h_def GetHash_fst_snd GetHash_timestamp)
  have track: "TrackForReplay SH H c1 pool1 = (pool2, c2)"
    by (simp add: TrackForReplay_def split_beta h1 t1 pool2_def c2_def)
  have h2: "fst (GetHash SH H c2) = h" and t2: "m_timestamp c2 = m_timestamp c"
    by (simp_all add: c2_def h1 t1 GetHash_fst_snd GetHash_timestamp)
  have second: "\<not> fst (CheckReplay SH H now' R c2 pool2)"
  proof -
    have "\<not> m_timestamp c2 <s ReplayPeriod now' R"
      using still by (simp add: signed.not_less t2)
    then have "CheckReplay SH H now' R c2 pool2
        = CheckReplay_scan SH H (ReplayPeriod now' R) c2 pool2"
      by (simp add: CheckReplay_def Let_def)
    then show ?thesis
      by (simp add: CheckReplay_scan_eq h2 pool2_def)
  qed
  have append: "fst (TrackForReplay SH H d p)
      = p @ [ReplayPoolItem (m_timestamp d) (fst (GetHash SH H d))]"
    by (simp add: TrackForReplay_def split_beta)
  show ?thesis
    using second append
    by (simp add: first track pool2_def h_def)
qed

theorem replay_guard_detects_resubmission_witness:
  "ReplayPeriod 110 60 \<le>s m_timestamp example_contract_v2
   \<and> list_all (\<lambda>item. item_hash item
        \<noteq> fst (GetHash example_SerializeHash example_Hash example_contract_v2)) example_pool
   \<and> ReplayPeriod 120 60 \<le>s m_timestamp example_contract_v2
   \<and> CheckReplay example_SerializeHash example_Hash 110 60 example_contract_v2 example_pool
       = (True, [ReplayPoolItem 105 9], example_contract_v2\<lparr>m_hash_cache := 13\<rparr>)
   \<and> TrackForReplay example_SerializeHash example_Hash
        (example_contract_v2\<lparr>m_hash_cache := 13\<rparr>) [ReplayPoolItem 105 9]
       = ([ReplayPoolItem 105 9, ReplayPoolItem 100 13], example_contract_v2\<lparr>m_hash_cache := 13\<rparr>)
   \<and> \<not> fst (CheckReplay example_SerializeHash example_Hash 120 60
        (example_contract_v2\<lparr>m_hash_cache := 13\<rparr>)
        [ReplayPoolItem 105 9, ReplayPoolItem 100 13])"
proof -
  have ts: "m_timestamp example_contract_v2 = 100"
    by (simp add: example_contract_v2_def)
  have fresh: "ReplayPeriod 110 60 \<le>s m_timestamp example_contract_v2"
    by (simp add: ReplayPeriod_def ts)
  have unseen: "\<forall>item \<in> set example_pool. item_hash item
        \<noteq> fst (GetHash example_SerializeHash example_Hash example_contract_v2)"
    by (simp add: example_hash example_pool_def)
  have still: "ReplayPeriod 120 60 \<le>s m_timestamp example_contract_v2"
    by (simp add: ReplayPeriod_def ts)
  have track: "TrackForReplay example_SerializeHash example_Hash
        (example_contract_v2\<lparr>m_hash_cache := 13\<rparr>) [ReplayPoolItem 105 9]
       = ([ReplayPoolItem 105 9, ReplayPoolItem 100 13], example_contract_v2\<lparr>m_hash_cache := 13\<rparr>)"
    by (simp add: TrackForReplay_def GetHash_def ts)
  show ?thesis
    using fresh unseen still replay_guard_detects_resubmission [OF fresh unseen still]
    by (simp add: example_first_check track example_hash list_all_iff ts)
qed

text \<open>
  C5.  A contract whose signing timestamp is strictly less than
  \<open>now - REPLAY_RETENTION_PERIOD\<close> is rejected by \<open>CheckReplay\<close> whatever the pool
  holds, and the pool is left as it was.  In particular a contract with signing
  timestamp 0, as every version-1 contract has, is rejected whenever \<open>now\<close>
  exceeds the (non-negative) retention period.
\<close>

theorem CheckReplay_stale_rejected:
  "(m_timestamp c <s ReplayPeriod now R \<longrightarrow>
      CheckReplay SH H now R c pool = (False, pool, c))
   \<and> (m_timestamp c = 0 \<and> 0 \<le>s R \<and> R <s now \<longrightarrow>
      CheckReplay SH H now R c pool = (False, pool, c))
   \<and> (message \<noteq> [] \<and> 0 \<le>s R \<and> R <s now \<longrightarrow>
      m_version (Contract_Parse ExtractXML DecodeBase64 CURRENT_VERSION message tx_time) = 1
      \<and> \<not> fst (CheckReplay SH H now R
            (Contract_Parse ExtractXML DecodeBase64 CURRENT_VERSION message tx_time) pool))"
proof -
  have "0 <s now - R" if "0 \<le>s R" "R <s now"
  proof -
    have "sint (now - R) = sint now - sint R"
      using that sint_range_size [of now] sint_range_size [of R]
      by (simp add: word_sless_alt word_sle_eq sint_word_ariths
            signed_take_bit_int_eq_self word_size)
    then show ?thesis using that by (simp add: word_sless_alt word_sle_eq)
  qed
  then show ?thesis
    by (auto simp: CheckReplay_def ReplayPeriod_def Let_def Contract_Parse_def)
qed

theorem CheckReplay_stale_rejected_witness:
  "m_timestamp example_contract_v2 <s ReplayPeriod 200 60
   \<and> CheckReplay example_SerializeHash example_Hash 200 60 example_contract_v2 example_pool
       = (False, example_pool, example_contract_v2)
   \<and> m_timestamp example_contract_v1 = 0 \<and> (0 :: int64_t) \<le>s 60 \<and> (60 :: int64_t) <s 61
   \<and> CheckReplay example_SerializeHash example_Hash 61 60 example_contract_v1 []
       = (False, [], example_contract_v1)
   \<and> \<not> fst (CheckReplay example_SerializeHash example_Hash 61 60
        (Contract_Parse (\<lambda>m a b. ''x'') (\<lambda>s. ([], True)) 2 ''<MT>x</MT>'' 120) [])"
proof -
  have a: "m_timestamp example_contract_v2 <s ReplayPeriod 200 60"
    by (simp add: example_contract_v2_def ReplayPeriod_def)
  have b: "m_timestamp example_contract_v1 = 0 \<and> (0 :: int64_t) \<le>s 60 \<and> (60 :: int64_t) <s 61"
    by (simp add: example_contract_v1_def word_sle_eq)
  have c: "''<MT>x</MT>'' \<noteq> [] \<and> (0 :: int64_t) \<le>s 60 \<and> (60 :: int64_t) <s 61"
    by (simp add: word_sle_eq)
  show ?thesis
    using a b c
      CheckReplay_stale_rejected [where c = example_contract_v2 and now = 200 and R = 60
        and SH = example_SerializeHash and H = example_Hash and pool = example_pool
        and message = "''<MT>x</MT>''"]
      CheckReplay_stale_rejected [where c = example_contract_v1 and now = 61 and R = 60
        and SH = example_SerializeHash and H = example_Hash and pool = "[]"
        and message = "''<MT>x</MT>''" and ExtractXML = "\<lambda>m a b. ''x''"
        and ?DecodeBase64.0 = "\<lambda>s. ([], True)" and CURRENT_VERSION = 2 and tx_time = 120]
    by simp
qed

text \<open>
  C10.  \<open>CheckReplay\<close> adds nothing to the pool: what it leaves is a
  subsequence of the pool, and every entry it removed has a timestamp strictly
  less than \<open>now - REPLAY_RETENTION_PERIOD\<close>.  When it returns true the whole
  pool was scanned: what is left is the pool without its stale entries, so every
  remaining timestamp is at least \<open>now - REPLAY_RETENTION_PERIOD\<close>.
\<close>

theorem CheckReplay_only_purges_stale:
  "(case CheckReplay SH H now R c pool of
      (unique, pool', c') \<Rightarrow>
        subseq pool' pool
        \<and> (\<forall>item \<in># mset pool - mset pool'. item_timestamp item <s ReplayPeriod now R)
        \<and> (unique \<longrightarrow>
             pool' = filter (\<lambda>item. ReplayPeriod now R \<le>s item_timestamp item) pool
             \<and> (\<forall>item \<in> set pool'. ReplayPeriod now R \<le>s item_timestamp item)))"
proof (cases "m_timestamp c <s ReplayPeriod now R")
  case True
  then show ?thesis by (simp add: CheckReplay_def)
next
  case False
  define va where "va = ReplayPeriod now R"
  define nm where "nm = (\<lambda>item. item_hash item \<noteq> fst (GetHash SH H c))"
  define keep where "keep = (\<lambda>item. \<not> item_timestamp item <s va)"
  define pool' where "pool' = filter keep (takeWhile nm pool) @ dropWhile nm pool"
  have res: "CheckReplay SH H now R c pool =
      (list_all nm pool, pool', if pool = [] then c else snd (GetHash SH H c))"
    using False
    by (simp add: CheckReplay_def CheckReplay_scan_eq va_def nm_def keep_def pool'_def)
  have split: "pool = takeWhile nm pool @ dropWhile nm pool" by simp
  have sub: "subseq pool' pool"
    unfolding pool'_def by (subst (3) split) (intro list_emb_append_mono subseq_filter_left subseq_order.order_refl)
  have parts: "mset pool = mset (takeWhile nm pool) + mset (dropWhile nm pool)"
    by (simp flip: mset_append)
  have "mset pool - mset pool' = mset (takeWhile nm pool) - mset (filter keep (takeWhile nm pool))"
    unfolding pool'_def by (subst parts) simp
  then have removed: "mset pool - mset pool' = mset (filter (\<lambda>x. \<not> keep x) (takeWhile nm pool))"
    by (simp only: mset_minus_filter)
  have stale: "\<forall>item \<in># mset pool - mset pool'. item_timestamp item <s va"
    unfolding removed by (simp add: keep_def)
  have full: "pool' = filter keep pool" if "list_all nm pool"
  proof -
    have tw: "takeWhile nm pool = pool" using that by (simp add: list_all_iff)
    have dw: "dropWhile nm pool = []" using that by (simp add: list_all_iff)
    show ?thesis unfolding pool'_def tw dw by simp
  qed
  have keep_eq: "keep = (\<lambda>item. va \<le>s item_timestamp item)"
    by (simp add: keep_def signed.not_less)
  show ?thesis
    using sub stale full
    by (simp add: res keep_eq flip: va_def)
qed

theorem CheckReplay_only_purges_stale_witness:
  "fst (CheckReplay example_SerializeHash example_Hash 110 60 example_contract_v2 example_pool)
   \<and> fst (snd (CheckReplay example_SerializeHash example_Hash 110 60 example_contract_v2
        example_pool)) = [ReplayPoolItem 105 9]
   \<and> subseq [ReplayPoolItem 105 9] example_pool
   \<and> item_timestamp (ReplayPoolItem 10 3) <s ReplayPeriod 110 60
   \<and> ReplayPeriod 110 60 \<le>s item_timestamp (ReplayPoolItem 105 9)"
  using CheckReplay_only_purges_stale [where SH = example_SerializeHash and H = example_Hash
      and now = 110 and R = 60 and c = example_contract_v2 and pool = example_pool]
  by (simp add: example_first_check) (simp add: example_pool_def ReplayPeriod_def)

subsection \<open>Hashing of version-1 contracts\<close>

text \<open>
  C4.  With an empty hash cache, the hash of a version-1 contract is the
  three-range hash of the type's string form, the key and the value.  So
  changing the action, the signature or the public key leaves it as it is, and
  two version-1 contracts that agree on the three components have equal hashes.
  Neither statement needs the contract to be well-formed; the contract of the
  evaluation is.
\<close>

theorem GetHash_version_1:
  "(m_version c = 1 \<and> m_hash_cache c = 0 \<longrightarrow>
      fst (GetHash SH H c) = H (Type_ToString (m_type c)) (m_key c) (m_value c)
      \<and> fst (GetHash SH H (c\<lparr>m_action := a, m_signature := sg, m_public_key := pk\<rparr>))
          = fst (GetHash SH H c))
   \<and> (m_version c1 = 1 \<and> m_version c2 = 1 \<and> m_hash_cache c1 = 0 \<and> m_hash_cache c2 = 0
       \<and> Type_ToString (m_type c1) = Type_ToString (m_type c2)
       \<and> m_key c1 = m_key c2 \<and> m_value c1 = m_value c2 \<longrightarrow>
      fst (GetHash SH H c1) = fst (GetHash SH H c2))"
  by (simp add: GetHash_def Let_def)

theorem GetHash_version_1_witness:
  "WellFormed (\<lambda>k. length k = 33 \<or> length k = 65) 2 example_contract_v1
   \<and> m_version example_contract_v1 = 1 \<and> m_hash_cache example_contract_v1 = 0
   \<and> fst (GetHash example_SerializeHash example_Hash example_contract_v1) = 18
   \<and> fst (GetHash example_SerializeHash example_Hash
        (example_contract_v1\<lparr>m_action := Action_enum REMOVE, m_signature := [],
           m_public_key := [4]\<rparr>)) = 18
   \<and> m_type (example_contract_v1\<lparr>m_type := Type_other ''beacon''\<rparr>) \<noteq> m_type example_contract_v1
   \<and> fst (GetHash example_SerializeHash example_Hash
        (example_contract_v1\<lparr>m_type := Type_other ''beacon''\<rparr>)) = 18"
proof -
  have wf: "WellFormed (\<lambda>k. length k = 33 \<or> length k = 65) 2 example_contract_v1"
    by (simp add: WellFormed_def example_contract_v1_def Signature_Viable_def
          RequiresSpecialKey_def RequiresMessageKey_def Type_enum_def Action_enum_def
          word_sless_alt word_sle_eq)
  have v: "m_version example_contract_v1 = 1 \<and> m_hash_cache example_contract_v1 = 0"
    by (simp add: example_contract_v1_def)
  have h: "example_Hash (Type_ToString (m_type example_contract_v1))
      (m_key example_contract_v1) (m_value example_contract_v1) = 18"
    by (simp add: example_Hash_def example_contract_v1_def Type_ToString_def Type_enum_def)
  have t: "Type_ToString (m_type (example_contract_v1\<lparr>m_type := Type_other ''beacon''\<rparr>))
      = Type_ToString (m_type example_contract_v1)"
    by (simp add: example_contract_v1_def Type_ToString_def Type_enum_def Type_other_def)
  have d: "m_type (example_contract_v1\<lparr>m_type := Type_other ''beacon''\<rparr>) \<noteq> m_type example_contract_v1"
    by (simp add: example_contract_v1_def Type_enum_def Type_other_def)
  show ?thesis
    using wf v h t d
      GetHash_version_1 [where c = example_contract_v1 and SH = example_SerializeHash
        and H = example_Hash and a = "Action_enum REMOVE" and sg = "[]" and pk = "[4]"
        and ?c1.0 = "example_contract_v1\<lparr>m_type := Type_other ''beacon''\<rparr>"
        and ?c2.0 = example_contract_v1]
    by simp
qed


subsection \<open>Signing\<close>

text \<open>
  C8.  When the signing operation of the private key fails on the hash of the
  contract (taken after the cache is cleared and, for a version above 1, the
  timestamp and nonce are stamped), \<open>Sign\<close> returns false, and the signature
  and the embedded public key of the contract are what they were before the
  call.
\<close>

theorem Sign_failure_leaves_unsigned:
  "private_key_Sign
      (fst (GetHash SH H
         (if 1 <s m_version c
          then c\<lparr>m_hash_cache := 0, m_timestamp := now, m_nonce := random\<rparr>
          else c\<lparr>m_hash_cache := 0\<rparr>))) = None
   \<Longrightarrow>
   (case Sign SH H now random dbg private_key_Sign private_key_GetPubKey c lines of
      (ok, c', lines') \<Rightarrow>
        \<not> ok \<and> m_signature c' = m_signature c \<and> m_public_key c' = m_public_key c)"
proof -
  assume fail: "private_key_Sign
      (fst (GetHash SH H
         (if 1 <s m_version c
          then c\<lparr>m_hash_cache := 0, m_timestamp := now, m_nonce := random\<rparr>
          else c\<lparr>m_hash_cache := 0\<rparr>))) = None"
  define c2 where "c2 = (if 1 <s m_version c
          then c\<lparr>m_hash_cache := 0, m_timestamp := now, m_nonce := random\<rparr>
          else c\<lparr>m_hash_cache := 0\<rparr>)"
  obtain h c3 where g: "GetHash SH H c2 = (h, c3)" by (cases "GetHash SH H c2")
  have c3: "c3 = c2\<lparr>m_hash_cache := h\<rparr>" using g by (rule GetHash_cache_only)
  have none: "private_key_Sign h = None" using fail g by (simp add: c2_def)
  have "Sign SH H now random dbg private_key_Sign private_key_GetPubKey c lines
      = (False, c3, Contract_Log dbg ''ERROR: Failed to sign contract'' c3 lines)"
    using g none by (simp add: Sign_def Let_def c2_def)
  moreover have "m_signature c3 = m_signature c \<and> m_public_key c3 = m_public_key c"
    by (simp add: c3 c2_def)
  ultimately show ?thesis by simp
qed

theorem Sign_failure_leaves_unsigned_witness:
  "example_private_key_Sign
      (fst (GetHash example_SerializeHash example_Hash
         (if 1 <s m_version example_contract_v2
          then example_contract_v2\<lparr>m_hash_cache := 0, m_timestamp := 500, m_nonce := 9\<rparr>
          else example_contract_v2\<lparr>m_hash_cache := 0\<rparr>))) = None
   \<and> Sign example_SerializeHash example_Hash 500 9 True example_private_key_Sign [4, 2]
        example_contract_v2 []
     = (False, example_contract_v2\<lparr>m_hash_cache := 13, m_timestamp := 500, m_nonce := 9\<rparr>,
        [ContractLog ''ERROR: Failed to sign contract''
          (example_contract_v2\<lparr>m_hash_cache := 13, m_timestamp := 500, m_nonce := 9\<rparr>)])
   \<and> m_signature (example_contract_v2\<lparr>m_hash_cache := 13, m_timestamp := 500, m_nonce := 9\<rparr>)
       = m_signature example_contract_v2
   \<and> m_public_key (example_contract_v2\<lparr>m_hash_cache := 13, m_timestamp := 500, m_nonce := 9\<rparr>)
       = m_public_key example_contract_v2"
proof -
  have fail: "example_private_key_Sign
      (fst (GetHash example_SerializeHash example_Hash
         (if 1 <s m_version example_contract_v2
          then example_contract_v2\<lparr>m_hash_cache := 0, m_timestamp := 500, m_nonce := 9\<rparr>
          else example_contract_v2\<lparr>m_hash_cache := 0\<rparr>))) = None"
    by (simp add: GetHash_def example_SerializeHash_def example_contract_v2_def
          example_private_key_Sign_def word_sless_alt)
  have sg: "Sign example_SerializeHash example_Hash 500 9 True example_private_key_Sign [4, 2]
        example_contract_v2 []
     = (False, example_contract_v2\<lparr>m_hash_cache := 13, m_timestamp := 500, m_nonce := 9\<rparr>,
        [ContractLog ''ERROR: Failed to sign contract''
          (example_contract_v2\<lparr>m_hash_cache := 13, m_timestamp := 500, m_nonce := 9\<rparr>)])"
    by (simp add: Sign_def Let_def GetHash_def example_SerializeHash_def Contract_Log_def
          example_contract_v2_def example_private_key_Sign_def word_sless_alt)
  show ?thesis
    using fail
      Sign_failure_leaves_unsigned [where private_key_Sign = example_private_key_Sign
        and SH = example_SerializeHash and H = example_Hash and c = example_contract_v2
        and now = 500 and random = 9 and dbg = True and private_key_GetPubKey = "[4, 2]"
        and lines = "[]"]
    by (simp add: sg)
qed


subsection \<open>Dispatcher\<close>

text \<open>
  C6.  \<open>GetHandler\<close> selects the beacon directory for BEACON, the whitelist
  for PROJECT, the application cache handler for POLL, PROTOCOL, SCRAPER and
  VOTE, and the unknown-type handler for every other type.  \<open>Apply\<close> calls
  \<open>Add\<close> of the selected handler when the action is ADD and \<open>Delete\<close> of it
  when the action is REMOVE, and only writes the debug log for any other action.
  The default \<open>Revert\<close> calls \<open>Delete\<close> on the same contract when the action
  is ADD and \<open>Add\<close> when it is REMOVE, and only writes the log otherwise; the
  application cache handler reverts by this default.
\<close>

theorem Dispatcher_routing:
  "GetHandler BeaconDirectory Whitelist HexStr EncodeBase64 t =
      (if t = BEACON then BeaconDirectory
       else if t = PROJECT then Whitelist
       else if t = POLL \<or> t = PROTOCOL \<or> t = SCRAPER \<or> t = VOTE
         then AppCacheContractHandler HexStr EncodeBase64
       else UnknownContractHandler)
   \<and> Dispatcher_Apply BeaconDirectory Whitelist HexStr EncodeBase64 c w =
      (if Value (m_action c) = ADD then
         Add (GetHandler BeaconDirectory Whitelist HexStr EncodeBase64 (Value (m_type c))) c
           (Log ''INFO: Add contract'' c w)
       else if Value (m_action c) = REMOVE then
         Delete (GetHandler BeaconDirectory Whitelist HexStr EncodeBase64 (Value (m_type c))) c
           (Log ''INFO: Delete contract'' c w)
       else
         w\<lparr>debug_log :=
             (if fDebug w
              then debug_log w @ [ContractLog ''WARNING: Unknown contract action ignored'' c]
              else debug_log w)\<rparr>)
   \<and> IContractHandler_Revert this_Add this_Delete c w =
      (if Value (m_action c) = ADD then this_Delete c w
       else if Value (m_action c) = REMOVE then this_Add c w
       else
         w\<lparr>debug_log := debug_log w
             @ [ErrorLog ''Unknown contract action ignored: %s'' (Action_ToString (m_action c))]\<rparr>)
   \<and> Revert (AppCacheContractHandler HexStr EncodeBase64 :: 'x IContractHandler) =
      IContractHandler_Revert
        (Add (AppCacheContractHandler HexStr EncodeBase64 :: 'x IContractHandler))
        (Delete (AppCacheContractHandler HexStr EncodeBase64 :: 'x IContractHandler))"
proof -
  have r1: "GetHandler BeaconDirectory Whitelist HexStr EncodeBase64 t =
      (if t = BEACON then BeaconDirectory
       else if t = PROJECT then Whitelist
       else if t = POLL \<or> t = PROTOCOL \<or> t = SCRAPER \<or> t = VOTE
         then AppCacheContractHandler HexStr EncodeBase64
       else UnknownContractHandler)"
    unfolding GetHandler_def by (cases t) simp_all
  have r2: "Dispatcher_Apply BeaconDirectory Whitelist HexStr EncodeBase64 c w =
      (if Value (m_action c) = ADD then
         Add (GetHandler BeaconDirectory Whitelist HexStr EncodeBase64 (Value (m_type c))) c
           (Log ''INFO: Add contract'' c w)
       else if Value (m_action c) = REMOVE then
         Delete (GetHandler BeaconDirectory Whitelist HexStr EncodeBase64 (Value (m_type c))) c
           (Log ''INFO: Delete contract'' c w)
       else
         w\<lparr>debug_log :=
             (if fDebug w
              then debug_log w @ [ContractLog ''WARNING: Unknown contract action ignored'' c]
              else debug_log w)\<rparr>)"
    unfolding Dispatcher_Apply_def by (simp add: Log_def Contract_Log_def)
  have r3: "IContractHandler_Revert this_Add this_Delete c w =
      (if Value (m_action c) = ADD then this_Delete c w
       else if Value (m_action c) = REMOVE then this_Add c w
       else
         w\<lparr>debug_log := debug_log w
             @ [ErrorLog ''Unknown contract action ignored: %s'' (Action_ToString (m_action c))]\<rparr>)"
    unfolding IContractHandler_Revert_def by (simp add: error_log_def)
  have r4: "Revert (AppCacheContractHandler HexStr EncodeBase64 :: 'x IContractHandler) =
      IContractHandler_Revert
        (Add (AppCacheContractHandler HexStr EncodeBase64 :: 'x IContractHandler))
        (Delete (AppCacheContractHandler HexStr EncodeBase64 :: 'x IContractHandler))"
    unfolding AppCacheContractHandler_def by simp
  from r1 r2 r3 r4 show ?thesis by (intro conjI)
qed

text \<open>
  Through the dispatcher, adding a poll writes its key and value to the
  application cache and sets the poll title; reverting the addition deletes the
  entry.
\<close>

lemma Dispatcher_Apply_poll_add:
  assumes "Value (m_type c) = POLL" and "Value (m_action c) = ADD"
  shows "AppCache (Dispatcher_Apply BeaconDirectory Whitelist HexStr EncodeBase64 c w)
            (Type_ToString (m_type c), m_key c) = Some (m_value c, m_tx_timestamp c)
         \<and> msPoll (Dispatcher_Apply BeaconDirectory Whitelist HexStr EncodeBase64 c w)
            = Contract_ToString HexStr EncodeBase64 c
         \<and> collaborators (Dispatcher_Apply BeaconDirectory Whitelist HexStr EncodeBase64 c w)
            = collaborators w"
  using assms
  by (simp add: Dispatcher_Apply_def GetHandler_def AppCacheContractHandler_def
        AppCacheContractHandler_Add_def Let_def WriteCache_def StringToSection_def Log_def)

lemma Dispatcher_Revert_poll_add:
  assumes "Value (m_type c) = POLL" and "Value (m_action c) = ADD"
  shows "AppCache (Dispatcher_Revert BeaconDirectory Whitelist HexStr EncodeBase64 c w)
            (Type_ToString (m_type c), m_key c) = None"
  using assms
  by (simp add: Dispatcher_Revert_def GetHandler_def AppCacheContractHandler_def
        AppCacheContractHandler_Delete_def IContractHandler_Revert_def
        DeleteCache_def StringToSection_def Log_def)

end
